theory Spec2Isabelle
  imports Main "HOL-Library.Multiset"
begin

section \<open>The ranked-item API: schema, store operations, router, fault boundary\<close>

text \<open>
  The backend is three source files: the entity schema (\<^verbatim>\<open>models/rankItem.js\<close>), the
  router with its five handlers (\<^verbatim>\<open>routes/rankItemRoutes.js\<close>) and the terminal error
  handler (\<^verbatim>\<open>middlewares/errorHandler.js\<close>). The handlers are translated line by line.
  They call the object-document mapper (\<^verbatim>\<open>find\<close>, \<^verbatim>\<open>save\<close>, \<^verbatim>\<open>findById\<close>,
  \<^verbatim>\<open>findByIdAndUpdate\<close>, \<^verbatim>\<open>findByIdAndDelete\<close>), a dependency whose source is not part
  of the repository. Those calls are modelled over an in-memory collection, following the
  mapper's documented behaviour for exactly the options the router passes; every such
  definition says which behaviour it stands for.

  Scope of the request model: a request body carries the nine attributes the schema
  declares, its keys in the schema's order, each either omitted or a value of its declared
  type (\<open>rank\<close> an integer: an integer literal in the payload, a \<^verbatim>\<open>Number\<close> of integer value
  once \<^verbatim>\<open>express.json()\<close> has parsed it).
  Bodies with \<^verbatim>\<open>null\<close> values, values that need casting, update operators or the keys
  \<^verbatim>\<open>_id\<close>, \<^verbatim>\<open>createdAt\<close>, \<^verbatim>\<open>updatedAt\<close> are outside this model, and so are the
  version key of a document, response headers and what the handlers print to the console.
  The store is reachable: the \<^verbatim>\<open>catch\<close> branches of the handlers are kept, the failures
  the collection model raises are cast errors, validation errors and duplicate keys.
\<close>

subsection \<open>Entity schema\<close>

text \<open>An identifier of the store is kept in its printed form: 24 lower-case hexadecimal digits.\<close>

type_synonym objectId = string

text \<open>
  A stored document. The schema option \<^verbatim>\<open>timestamps: true\<close> adds the last two fields.
  The repository holds the schema twice; this is the later one, with the two optional
  addresses.
\<close>

record rankItem =
  item_id :: objectId
  siteName :: string
  logo :: string
  advantages :: "string list"
  welcomeBonus :: string
  payments :: "string list"
  promoCode :: string
  rank :: int
  createAccountUrl :: "string option"
  downloadAppUrl :: "string option"
  createdAt :: nat
  updatedAt :: nat

text \<open>
  A parsed request body (\<^verbatim>\<open>req.body\<close>): \<open>None\<close> is an omitted key. \<open>b_rank\<close> is the value
  of the \<^verbatim>\<open>Number\<close> the parser delivered; the handlers see no other integer.
\<close>

record reqBody =
  b_siteName :: "string option"
  b_logo :: "string option"
  b_advantages :: "string list option"
  b_welcomeBonus :: "string option"
  b_payments :: "string list option"
  b_promoCode :: "string option"
  b_rank :: "int option"
  b_createAccountUrl :: "string option"
  b_downloadAppUrl :: "string option"

subsection \<open>Body parser (app.js)\<close>








subsection \<open>Errors the mapper and the store raise\<close>

datatype error =
    CastError string
  | ValidationError string "string list"
  | DuplicateKey string string string

definition joinWith :: "string \<Rightarrow> string list \<Rightarrow> string" where
  "joinWith sep xs = (case xs of [] \<Rightarrow> [] | y # ys \<Rightarrow> y @ concat (map (\<lambda>z. sep @ z) ys))"

definition quoted :: "string \<Rightarrow> string" where
  "quoted v = [CHR 0x22] @ v @ [CHR 0x22]"

definition requiredText :: "string \<Rightarrow> string" where
  "requiredText p = p @ '': Path '' @ [CHR 0x60] @ p @ [CHR 0x60] @ '' is required.''"

text \<open>
  \<^verbatim>\<open>error.message\<close>. A cast error names the rejected value; a validation error lists the
  failed paths after its heading (\<^verbatim>\<open>RankItem validation failed\<close> for a document,
  \<^verbatim>\<open>Validation failed\<close> for an update); a duplicate key is the server's \<^verbatim>\<open>E11000\<close>
  text with the collection's namespace, the index and the key (the wording of current
  server versions; the model prints every rank as an integer, the server prints one
  beyond 32 bits as a double).
\<close>

fun message :: "error \<Rightarrow> string" where
  "message (CastError v) =
     ''Cast to ObjectId failed for value '' @ quoted v @ '' (type string) at path '' @
     quoted ''_id'' @ '' for model '' @ quoted ''RankItem''"
| "message (ValidationError heading ps) = heading @ '': '' @ joinWith '', '' (map requiredText ps)"
| "message (DuplicateKey nsp idx key) =
     ''E11000 duplicate key error collection: '' @ nsp @ '' index: '' @ idx @
     '' dup key: { '' @ key @ '' }''"

subsection \<open>Casting a request's id\<close>

definition isHexDigit :: "char \<Rightarrow> bool" where
  "isHexDigit c = (c \<in> set ''0123456789abcdefABCDEF'')"

definition toLowerHex :: "char \<Rightarrow> char" where
  "toLowerHex c =
     (if c = CHR ''A'' then CHR ''a'' else if c = CHR ''B'' then CHR ''b''
      else if c = CHR ''C'' then CHR ''c'' else if c = CHR ''D'' then CHR ''d''
      else if c = CHR ''E'' then CHR ''e'' else if c = CHR ''F'' then CHR ''f'' else c)"

text \<open>
  The mapper casts the \<^verbatim>\<open>:id\<close> segment to the identifier type before it queries: a string
  of 24 hexadecimal digits is accepted (read case-insensitively), anything else raises a
  cast error. This is the driver's current constructor.
\<close>

definition castObjectId :: "string \<Rightarrow> error + objectId" where
  "castObjectId v =
     (if length v = 24 \<and> list_all isHexDigit v then Inr (map toLowerHex v)
      else Inl (CastError v))"

text \<open>The printed form of an identifier the driver generates.\<close>

definition isLowerHexDigit :: "char \<Rightarrow> bool" where
  "isLowerHexDigit c = (c \<in> set ''0123456789abcdef'')"

definition isObjectId :: "string \<Rightarrow> bool" where
  "isObjectId k = (length k = 24 \<and> list_all isLowerHexDigit k)"

subsection \<open>Validators of the schema\<close>

text \<open>
  \<^verbatim>\<open>required: true\<close> fails on a path the document does not have. On a \<^verbatim>\<open>String\<close> path
  it passes for a non-empty string, on a \<^verbatim>\<open>Number\<close> path for every number. On an array
  path it passes for every array, the empty one included, and an omitted array path is
  filled with its default, the empty array, before validation.
\<close>

definition checkRequiredString :: "string option \<Rightarrow> bool" where
  "checkRequiredString v = (case v of None \<Rightarrow> False | Some t \<Rightarrow> t \<noteq> [])"

definition arrayDefault :: "string list option \<Rightarrow> string list" where
  "arrayDefault v = (case v of None \<Rightarrow> [] | Some xs \<Rightarrow> xs)"

definition checkRequiredArray :: "string list \<Rightarrow> bool" where
  "checkRequiredArray xs = True"

text \<open>
  Document validation, run by \<^verbatim>\<open>save\<close>: the required paths that fail, in the order the
  validation error lists them. The required paths the body omits come first, in reverse
  schema order (the mapper collects a schema's required paths from the last to the
  first); a path the body supplies is validated after them, in the order of the body's
  keys.
\<close>

definition omittedFailure :: "string \<Rightarrow> 'a option \<Rightarrow> string list" where
  "omittedFailure p v = (case v of None \<Rightarrow> [p] | Some x \<Rightarrow> [])"

definition suppliedTextFailure :: "string \<Rightarrow> string option \<Rightarrow> string list" where
  "suppliedTextFailure p v =
     (case v of None \<Rightarrow> [] | Some t \<Rightarrow> if checkRequiredString (Some t) then [] else [p])"

definition suppliedArrayFailure :: "string \<Rightarrow> string list option \<Rightarrow> string list" where
  "suppliedArrayFailure p v =
     (case v of None \<Rightarrow> [] | Some xs \<Rightarrow> if checkRequiredArray xs then [] else [p])"

definition requiredFailures :: "reqBody \<Rightarrow> string list" where
  "requiredFailures b =
     omittedFailure ''rank'' (b_rank b) @
     omittedFailure ''promoCode'' (b_promoCode b) @
     omittedFailure ''welcomeBonus'' (b_welcomeBonus b) @
     omittedFailure ''logo'' (b_logo b) @
     omittedFailure ''siteName'' (b_siteName b) @
     suppliedTextFailure ''siteName'' (b_siteName b) @
     suppliedTextFailure ''logo'' (b_logo b) @
     suppliedArrayFailure ''advantages'' (Some (arrayDefault (b_advantages b))) @
     suppliedTextFailure ''welcomeBonus'' (b_welcomeBonus b) @
     suppliedArrayFailure ''payments'' (Some (arrayDefault (b_payments b))) @
     suppliedTextFailure ''promoCode'' (b_promoCode b)"

text \<open>
  Update validation (\<^verbatim>\<open>runValidators: true\<close>): the validators run on the paths the update
  sets and on no other path. The validation error lists the failed paths from the body's
  last key to its first.
\<close>

definition updateFailures :: "reqBody \<Rightarrow> string list" where
  "updateFailures b =
     suppliedTextFailure ''promoCode'' (b_promoCode b) @
     suppliedArrayFailure ''payments'' (b_payments b) @
     suppliedTextFailure ''welcomeBonus'' (b_welcomeBonus b) @
     suppliedArrayFailure ''advantages'' (b_advantages b) @
     suppliedTextFailure ''logo'' (b_logo b) @
     suppliedTextFailure ''siteName'' (b_siteName b)"

subsection \<open>The collection\<close>

text \<open>
  The collection in insertion order, with its namespace (database and collection name,
  which the server prints in a duplicate-key error). The schema's \<^verbatim>\<open>unique: true\<close> on
  \<open>siteName\<close> and \<open>rank\<close> is a unique index on each, beside the store's own on the identifier.
\<close>

record store =
  ns :: string
  docs :: "rankItem list"

definition digitChar :: "nat \<Rightarrow> char" where
  "digitChar n = ''0123456789'' ! (n mod 10)"

function showNat :: "nat \<Rightarrow> string" where
  "showNat n = (if n < 10 then [digitChar n] else showNat (n div 10) @ [digitChar n])"
  by pat_completeness auto
termination
  by (relation "measure id") auto

declare showNat.simps [simp del]

definition showInt :: "int \<Rightarrow> string" where
  "showInt i = (if i < 0 then ''-'' @ showNat (nat (- i)) else showNat (nat i))"

definition insertOne :: "rankItem \<Rightarrow> store \<Rightarrow> error + store" where
  "insertOne d s =
     (if item_id d \<in> set (map item_id (docs s)) then
        Inl (DuplicateKey (ns s) ''_id_''
          (''_id: ObjectId('' @ [CHR 0x27] @ item_id d @ [CHR 0x27] @ '')''))
      else if siteName d \<in> set (map siteName (docs s)) then
        Inl (DuplicateKey (ns s) ''siteName_1'' (''siteName: '' @ quoted (siteName d)))
      else if rank d \<in> set (map rank (docs s)) then
        Inl (DuplicateKey (ns s) ''rank_1'' (''rank: '' @ showInt (rank d)))
      else Inr (s\<lparr>docs := docs s @ [d]\<rparr>))"

text \<open>
  \<^verbatim>\<open>new RankItem(req.body)\<close> followed by the validation \<^verbatim>\<open>save\<close> runs first. The
  identifier is the one the driver generates for the new document and the time is the
  clock's at the save; both come from the environment.
\<close>

definition newDocument :: "objectId \<Rightarrow> nat \<Rightarrow> reqBody \<Rightarrow> error + rankItem" where
  "newDocument oid now b =
     (case (b_siteName b, b_logo b, b_welcomeBonus b, b_promoCode b, b_rank b) of
        (Some sn, Some lg, Some wb, Some pc, Some rk) \<Rightarrow>
          (if requiredFailures b = [] then
             Inr \<lparr>item_id = oid, siteName = sn, logo = lg,
                  advantages = arrayDefault (b_advantages b), welcomeBonus = wb,
                  payments = arrayDefault (b_payments b), promoCode = pc, rank = rk,
                  createAccountUrl = b_createAccountUrl b,
                  downloadAppUrl = b_downloadAppUrl b,
                  createdAt = now, updatedAt = now\<rparr>
           else Inl (ValidationError ''RankItem validation failed'' (requiredFailures b)))
      | _ \<Rightarrow> Inl (ValidationError ''RankItem validation failed'' (requiredFailures b)))"

definition save :: "objectId \<Rightarrow> nat \<Rightarrow> reqBody \<Rightarrow> store \<Rightarrow> error + (rankItem \<times> store)" where
  "save oid now b s =
     (case newDocument oid now b of
        Inl e \<Rightarrow> Inl e
      | Inr d \<Rightarrow> (case insertOne d s of Inl e \<Rightarrow> Inl e | Inr s' \<Rightarrow> Inr (d, s')))"

text \<open>
  \<^verbatim>\<open>RankItem.find({}).sort({ rank: 1 })\<close>: every document, ascending by \<open>rank\<close>. The store
  promises no order among equal ranks; the model keeps insertion order there.
\<close>

definition findSorted :: "store \<Rightarrow> error + rankItem list" where
  "findSorted s = Inr (sort_key rank (docs s))"

text \<open>\<^verbatim>\<open>RankItem.findById(id)\<close>: the cast, then the first document with that identifier.\<close>

definition findById :: "string \<Rightarrow> store \<Rightarrow> error + rankItem option" where
  "findById v s =
     (case castObjectId v of
        Inl e \<Rightarrow> Inl e
      | Inr k \<Rightarrow> Inr (find (\<lambda>d. item_id d = k) (docs s)))"

fun removeFirst :: "('a \<Rightarrow> bool) \<Rightarrow> 'a list \<Rightarrow> 'a list" where
  "removeFirst P [] = []"
| "removeFirst P (x # xs) = (if P x then xs else x # removeFirst P xs)"

fun replaceFirst :: "('a \<Rightarrow> bool) \<Rightarrow> 'a \<Rightarrow> 'a list \<Rightarrow> 'a list" where
  "replaceFirst P y [] = []"
| "replaceFirst P y (x # xs) = (if P x then y # xs else x # replaceFirst P y xs)"

text \<open>\<^verbatim>\<open>RankItem.findByIdAndDelete(id)\<close>: removes the document found and returns it.\<close>

definition findByIdAndDelete :: "string \<Rightarrow> store \<Rightarrow> error + (rankItem option \<times> store)" where
  "findByIdAndDelete v s =
     (case castObjectId v of
        Inl e \<Rightarrow> Inl e
      | Inr k \<Rightarrow>
          (case find (\<lambda>d. item_id d = k) (docs s) of
             None \<Rightarrow> Inr (None, s)
           | Some d \<Rightarrow> Inr (Some d, s\<lparr>docs := removeFirst (\<lambda>d. item_id d = k) (docs s)\<rparr>)))"

text \<open>
  The update the mapper sends for a body: each supplied key is set, and the timestamps
  option sets \<open>updatedAt\<close> on every update.
\<close>

definition applyUpdate :: "reqBody \<Rightarrow> nat \<Rightarrow> rankItem \<Rightarrow> rankItem" where
  "applyUpdate b now d =
     d\<lparr>siteName := (case b_siteName b of None \<Rightarrow> siteName d | Some v \<Rightarrow> v),
       logo := (case b_logo b of None \<Rightarrow> logo d | Some v \<Rightarrow> v),
       advantages := (case b_advantages b of None \<Rightarrow> advantages d | Some v \<Rightarrow> v),
       welcomeBonus := (case b_welcomeBonus b of None \<Rightarrow> welcomeBonus d | Some v \<Rightarrow> v),
       payments := (case b_payments b of None \<Rightarrow> payments d | Some v \<Rightarrow> v),
       promoCode := (case b_promoCode b of None \<Rightarrow> promoCode d | Some v \<Rightarrow> v),
       rank := (case b_rank b of None \<Rightarrow> rank d | Some v \<Rightarrow> v),
       createAccountUrl :=
         (case b_createAccountUrl b of None \<Rightarrow> createAccountUrl d | Some v \<Rightarrow> Some v),
       downloadAppUrl :=
         (case b_downloadAppUrl b of None \<Rightarrow> downloadAppUrl d | Some v \<Rightarrow> Some v),
       updatedAt := now\<rparr>"

text \<open>
  The unique indexes at an update: a key the update sets must not be the key of another
  document.
\<close>

definition updateConflict :: "string \<Rightarrow> reqBody \<Rightarrow> rankItem list \<Rightarrow> error option" where
  "updateConflict nsp b others =
     (case b_siteName b of
        Some v \<Rightarrow>
          (if v \<in> set (map siteName others) then
             Some (DuplicateKey nsp ''siteName_1'' (''siteName: '' @ quoted v))
           else (case b_rank b of
              Some r \<Rightarrow>
                (if r \<in> set (map rank others) then
                   Some (DuplicateKey nsp ''rank_1'' (''rank: '' @ showInt r))
                 else None)
            | None \<Rightarrow> None))
      | None \<Rightarrow>
          (case b_rank b of
             Some r \<Rightarrow>
               (if r \<in> set (map rank others) then
                  Some (DuplicateKey nsp ''rank_1'' (''rank: '' @ showInt r))
                else None)
           | None \<Rightarrow> None))"

text \<open>
  \<^verbatim>\<open>RankItem.findByIdAndUpdate(id, body, { new: true, runValidators: true })\<close>: the cast of
  the id, the update validators, then the store's find-and-modify, which returns the
  document as updated (\<^verbatim>\<open>new: true\<close>) or nothing when no document has the id.
\<close>

definition findByIdAndUpdate ::
  "string \<Rightarrow> reqBody \<Rightarrow> nat \<Rightarrow> store \<Rightarrow> error + (rankItem option \<times> store)" where
  "findByIdAndUpdate v b now s =
     (case castObjectId v of
        Inl e \<Rightarrow> Inl e
      | Inr k \<Rightarrow>
          (case updateFailures b of
             p # ps \<Rightarrow> Inl (ValidationError ''Validation failed'' (p # ps))
           | [] \<Rightarrow>
               (case find (\<lambda>d. item_id d = k) (docs s) of
                  None \<Rightarrow> Inr (None, s)
                | Some d \<Rightarrow>
                    (case updateConflict (ns s) b (removeFirst (\<lambda>d. item_id d = k) (docs s)) of
                       Some e \<Rightarrow> Inl e
                     | None \<Rightarrow>
                         Inr (Some (applyUpdate b now d),
                              s\<lparr>docs := replaceFirst (\<lambda>d. item_id d = k)
                                          (applyUpdate b now d) (docs s)\<rparr>)))))"

subsection \<open>Fault boundary (middlewares/errorHandler.js)\<close>

datatype payload = Message string | Item rankItem | Items "rankItem list"

record response =
  status :: nat
  body :: payload

text \<open>\<^verbatim>\<open>res.status(500).json({ message: 'Something went wrong!' })\<close>, whatever the error.\<close>

definition errorHandler :: "error \<Rightarrow> response" where
  "errorHandler err = \<lparr>status = 500, body = Message ''Something went wrong!''\<rparr>"

subsection \<open>Resource router (routes/rankItemRoutes.js)\<close>

text \<open>
  Each handler is \<^verbatim>\<open>try { ... } catch (error) { next(error) }\<close> (the create handler
  apart); \<^verbatim>\<open>app.js\<close> registers \<open>errorHandler\<close> after the router as the only error
  middleware, so \<^verbatim>\<open>next(error)\<close> is a call of \<open>errorHandler\<close>. \<^verbatim>\<open>res.json\<close> without a
  status answers 200. A handler that writes returns the collection after it.

  GET \<^verbatim>\<open>/\<close>.
\<close>

definition getAll :: "store \<Rightarrow> response" where
  "getAll s =
     (case findSorted s of
        Inl e \<Rightarrow> errorHandler e
      | Inr rankItems \<Rightarrow> \<lparr>status = 200, body = Items rankItems\<rparr>)"

text \<open>
  POST \<^verbatim>\<open>/\<close>. \<^verbatim>\<open>!req.body.siteName\<close> holds for an omitted and for an empty name. The
  handler's own \<^verbatim>\<open>catch\<close> answers, not the fault boundary, with \<^verbatim>\<open>error.message\<close> or,
  when that is empty, a fixed French sentence (its accented letter is written here as
  its two bytes).
\<close>

definition falsy :: "string option \<Rightarrow> bool" where
  "falsy v = (case v of None \<Rightarrow> True | Some t \<Rightarrow> t = [])"

definition creationFallback :: string where
  "creationFallback =
     ''Erreur lors de la cr'' @ [CHR 0xC3, CHR 0xA9] @ ''ation de l'' @ [CHR 0x27] @ ''item''"

definition postItem :: "objectId \<Rightarrow> nat \<Rightarrow> reqBody \<Rightarrow> store \<Rightarrow> response \<times> store" where
  "postItem oid now b s =
     (if falsy (b_siteName b) then
        (\<lparr>status = 400, body = Message ''Le nom du site est requis''\<rparr>, s)
      else
        (case save oid now b s of
           Inr (savedItem, s') \<Rightarrow> (\<lparr>status = 201, body = Item savedItem\<rparr>, s')
         | Inl e \<Rightarrow>
             (\<lparr>status = 500,
               body = Message (if message e \<noteq> [] then message e else creationFallback)\<rparr>, s)))"

text \<open>GET \<^verbatim>\<open>/:id\<close>.\<close>

definition getById :: "string \<Rightarrow> store \<Rightarrow> response" where
  "getById v s =
     (case findById v s of
        Inl e \<Rightarrow> errorHandler e
      | Inr None \<Rightarrow> \<lparr>status = 404, body = Message ''Rank item not found''\<rparr>
      | Inr (Some rankItem) \<Rightarrow> \<lparr>status = 200, body = Item rankItem\<rparr>)"

text \<open>PUT \<^verbatim>\<open>/:id\<close>.\<close>

definition putById :: "string \<Rightarrow> reqBody \<Rightarrow> nat \<Rightarrow> store \<Rightarrow> response \<times> store" where
  "putById v b now s =
     (case findByIdAndUpdate v b now s of
        Inl e \<Rightarrow> (errorHandler e, s)
      | Inr (None, s') \<Rightarrow> (\<lparr>status = 404, body = Message ''Rank item not found''\<rparr>, s')
      | Inr (Some updatedRankItem, s') \<Rightarrow> (\<lparr>status = 200, body = Item updatedRankItem\<rparr>, s'))"

text \<open>DELETE \<^verbatim>\<open>/:id\<close>.\<close>

definition deleteById :: "string \<Rightarrow> store \<Rightarrow> response \<times> store" where
  "deleteById v s =
     (case findByIdAndDelete v s of
        Inl e \<Rightarrow> (errorHandler e, s)
      | Inr (None, s') \<Rightarrow> (\<lparr>status = 404, body = Message ''Rank item not found''\<rparr>, s')
      | Inr (Some deletedRankItem, s') \<Rightarrow>
          (\<lparr>status = 200, body = Message ''Rank item deleted successfully''\<rparr>, s'))"

subsection \<open>The validators on a stored document\<close>

text \<open>
  A stored document read as a full body, so that the document validation of a save can be
  asked of it: \<open>passesValidators\<close> says that no required path fails the code's validators.
\<close>

definition toBody :: "rankItem \<Rightarrow> reqBody" where
  "toBody d =
     \<lparr>b_siteName = Some (siteName d), b_logo = Some (logo d),
      b_advantages = Some (advantages d), b_welcomeBonus = Some (welcomeBonus d),
      b_payments = Some (payments d), b_promoCode = Some (promoCode d),
      b_rank = Some (rank d), b_createAccountUrl = createAccountUrl d,
      b_downloadAppUrl = downloadAppUrl d\<rparr>"

definition passesValidators :: "rankItem \<Rightarrow> bool" where
  "passesValidators d = (requiredFailures (toBody d) = [])"

text \<open>
  The entity schema in the words of the specification's data model, not of the code: the
  five required attributes of a stored record are there, none of the four texts empty, and
  \<open>advantages\<close> and \<open>payments\<close> each hold at least one element.
\<close>

definition spec_entitySchema :: "rankItem \<Rightarrow> bool" where
  "spec_entitySchema d =
     (siteName d \<noteq> [] \<and> logo d \<noteq> [] \<and> welcomeBonus d \<noteq> [] \<and> promoCode d \<noteq> [] \<and>
      advantages d \<noteq> [] \<and> payments d \<noteq> [])"

subsection \<open>Sample data\<close>

text \<open>The record of the specification's end-to-end scenario, an identifier, an empty collection.\<close>

definition acmeBody :: reqBody where
  "acmeBody =
     \<lparr>b_siteName = Some ''Acme Bet'', b_logo = Some ''http://x/a.png'',
      b_advantages = Some [''Fast payouts''], b_welcomeBonus = Some ''100%'',
      b_payments = Some [''Visa''], b_promoCode = Some ''ACME100'', b_rank = Some 1,
      b_createAccountUrl = None, b_downloadAppUrl = None\<rparr>"


definition acmeId :: objectId where
  "acmeId = ''65f0c0ffee0123456789abcd''"

definition otherId :: objectId where
  "otherId = ''65f0c0ffee0123456789abce''"

definition acmeItem :: rankItem where
  "acmeItem =
     \<lparr>item_id = acmeId, siteName = ''Acme Bet'', logo = ''http://x/a.png'',
      advantages = [''Fast payouts''], welcomeBonus = ''100%'', payments = [''Visa''],
      promoCode = ''ACME100'', rank = 1, createAccountUrl = None, downloadAppUrl = None,
      createdAt = 1000, updatedAt = 1000\<rparr>"

definition emptyStore :: store where
  "emptyStore = \<lparr>ns = ''test.rankitems'', docs = []\<rparr>"

definition acmeStore :: store where
  "acmeStore = \<lparr>ns = ''test.rankitems'', docs = [acmeItem]\<rparr>"



text \<open>A body that supplies nothing.\<close>

definition noFields :: reqBody where
  "noFields =
     \<lparr>b_siteName = None, b_logo = None, b_advantages = None, b_welcomeBonus = None,
      b_payments = None, b_promoCode = None, b_rank = None,
      b_createAccountUrl = None, b_downloadAppUrl = None\<rparr>"

section \<open>Properties\<close>

subsection \<open>Identifiers and list operations\<close>

lemma toLowerHex_lower: "isLowerHexDigit c \<Longrightarrow> toLowerHex c = c"
  by (auto simp: toLowerHex_def isLowerHexDigit_def)

lemma isHexDigit_lower: "isLowerHexDigit c \<Longrightarrow> isHexDigit c"
  by (auto simp: isHexDigit_def isLowerHexDigit_def)

lemma castObjectId_isObjectId: "isObjectId k \<Longrightarrow> castObjectId k = Inr k"
proof -
  assume k: "isObjectId k"
  then have "list_all isHexDigit k"
    by (simp add: isObjectId_def list_all_iff isHexDigit_lower)
  moreover from k have "map toLowerHex k = k"
    by (intro map_idI) (simp add: isObjectId_def list_all_iff toLowerHex_lower)
  ultimately show ?thesis
    using k by (simp add: castObjectId_def isObjectId_def)
qed

lemma isObjectId_acmeId: "isObjectId acmeId"
  by (simp add: isObjectId_def acmeId_def isLowerHexDigit_def)

lemma castObjectId_acmeId: "castObjectId acmeId = Inr acmeId"
  by (rule castObjectId_isObjectId [OF isObjectId_acmeId])

lemma castObjectId_otherId: "castObjectId otherId = Inr otherId"
  by (rule castObjectId_isObjectId) (simp add: isObjectId_def otherId_def isLowerHexDigit_def)

lemma find_Some_member: "find P xs = Some d \<Longrightarrow> d \<in> set xs \<and> P d"
  by (induction xs) (auto split: if_splits)

lemma find_absent: "k \<notin> set (map f xs) \<Longrightarrow> find (\<lambda>x. f x = k) xs = None"
  by (auto simp: find_None_iff)

lemma find_distinct_member:
  "distinct (map f xs) \<Longrightarrow> d \<in> set xs \<Longrightarrow> find (\<lambda>x. f x = f d) xs = Some d"
  by (induction xs) (auto simp: image_iff)


lemma set_removeFirst_subset: "set (removeFirst P xs) \<subseteq> set xs"
  by (induction xs) auto

lemma map_removeFirst_distinct:
  "distinct (map f xs) \<Longrightarrow> distinct (map f (removeFirst P xs))"
  by (induction xs) (auto simp: image_iff dest: subsetD [OF set_removeFirst_subset])

lemma set_removeFirst_distinct:
  "distinct (map f xs) \<Longrightarrow> set (removeFirst (\<lambda>x. f x = k) xs) = {x \<in> set xs. f x \<noteq> k}"
  by (induction xs) (auto simp: image_iff)

lemma find_removeFirst_distinct:
  "distinct (map f xs) \<Longrightarrow> find (\<lambda>x. f x = k) (removeFirst (\<lambda>x. f x = k) xs) = None"
  by (induction xs) (auto simp: find_None_iff image_iff)

lemma mset_removeFirst:
  "find P xs = Some d \<Longrightarrow> mset (removeFirst P xs) = mset xs - {#d#}"
proof (induction xs)
  case Nil
  then show ?case by simp
next
  case (Cons a xs)
  show ?case
  proof (cases "P a")
    case True
    with Cons.prems show ?thesis by simp
  next
    case False
    with Cons.prems have f: "find P xs = Some d" by simp
    then have "d \<in># mset xs" using find_Some_member by fastforce
    with Cons.IH [OF f] False show ?thesis by simp
  qed
qed

lemma map_replace_absent:
  "\<forall>x\<in>set xs. f x \<noteq> k \<Longrightarrow> map (\<lambda>x. if f x = k then y else x) xs = xs"
  by (induction xs) auto

lemma replaceFirst_distinct:
  "distinct (map f xs) \<Longrightarrow>
     replaceFirst (\<lambda>x. f x = k) y xs = map (\<lambda>x. if f x = k then y else x) xs"
proof (induction xs)
  case Nil
  then show ?case by simp
next
  case (Cons a xs)
  show ?case
  proof (cases "f a = k")
    case True
    with Cons.prems have "\<forall>x\<in>set xs. f x \<noteq> k" by (auto simp: image_iff)
    then show ?thesis using True by (simp add: map_replace_absent)
  next
    case False
    with Cons show ?thesis by simp
  qed
qed

lemma map_replaceFirst_same:
  "f y = k \<Longrightarrow> map f (replaceFirst (\<lambda>x. f x = k) y xs) = map f xs"
  by (induction xs) auto

lemma set_replaceFirst_subset: "set (replaceFirst P y xs) \<subseteq> insert y (set xs)"
  by (induction xs) auto

lemma find_replaceFirst:
  "find (\<lambda>x. f x = k) xs = Some d \<Longrightarrow> f y = k \<Longrightarrow>
     find (\<lambda>x. f x = k) (replaceFirst (\<lambda>x. f x = k) y xs) = Some y"
  by (induction xs) (auto split: if_splits)

subsection \<open>Validators and messages\<close>

lemma message_nonempty: "message e \<noteq> []"
  by (cases e) simp_all

lemma requiredFailures_Nil_iff:
  "requiredFailures b = [] \<longleftrightarrow>
     checkRequiredString (b_siteName b) \<and> checkRequiredString (b_logo b) \<and>
     checkRequiredString (b_welcomeBonus b) \<and> checkRequiredString (b_promoCode b) \<and>
     b_rank b \<noteq> None"
  by (auto simp: requiredFailures_def omittedFailure_def suppliedTextFailure_def
      suppliedArrayFailure_def checkRequiredString_def checkRequiredArray_def
      split: option.splits)





lemma updateConflict_None_iff:
  "updateConflict nsp b others = None \<longleftrightarrow>
     (\<forall>x\<in>set others. b_siteName b \<noteq> Some (siteName x) \<and> b_rank b \<noteq> Some (rank x))"
  by (auto simp: updateConflict_def split: option.splits)

lemma passesValidators_iff:
  "passesValidators d \<longleftrightarrow>
     siteName d \<noteq> [] \<and> logo d \<noteq> [] \<and> welcomeBonus d \<noteq> [] \<and> promoCode d \<noteq> []"
  by (simp add: passesValidators_def requiredFailures_Nil_iff toBody_def checkRequiredString_def)

lemma updateFailures_Nil_iff:
  "updateFailures b = [] \<longleftrightarrow>
     b_siteName b \<noteq> Some [] \<and> b_logo b \<noteq> Some [] \<and>
     b_welcomeBonus b \<noteq> Some [] \<and> b_promoCode b \<noteq> Some []"
  by (auto simp: updateFailures_def suppliedTextFailure_def suppliedArrayFailure_def
      checkRequiredString_def checkRequiredArray_def split: option.splits)

lemma passesValidators_applyUpdate:
  "passesValidators d \<Longrightarrow> passesValidators (applyUpdate b now d) \<longleftrightarrow> updateFailures b = []"
  by (auto simp: passesValidators_iff updateFailures_Nil_iff applyUpdate_def split: option.splits)

lemma item_id_applyUpdate: "item_id (applyUpdate b now d) = item_id d"
  by (simp add: applyUpdate_def)

lemma newDocument_fields:
  "newDocument oid now b = Inr d \<Longrightarrow> item_id d = oid \<and> passesValidators d"
  by (auto simp: newDocument_def passesValidators_iff requiredFailures_Nil_iff
      checkRequiredString_def split: option.splits if_splits)

subsection \<open>What a handler does to the collection\<close>

lemma postItem_docs:
  "docs (snd (postItem oid now b s)) = docs s \<or>
   (\<exists>d. newDocument oid now b = Inr d \<and> insertOne d s = Inr (snd (postItem oid now b s)) \<and>
        docs (snd (postItem oid now b s)) = docs s @ [d])"
  by (auto simp: postItem_def save_def insertOne_def split: sum.splits if_splits)

lemma putById_docs:
  "docs (snd (putById v b now s)) = docs s \<or>
   (\<exists>k d. castObjectId v = Inr k \<and> updateFailures b = [] \<and>
          find (\<lambda>x. item_id x = k) (docs s) = Some d \<and>
          docs (snd (putById v b now s)) =
            replaceFirst (\<lambda>x. item_id x = k) (applyUpdate b now d) (docs s))"
  by (auto simp: putById_def findByIdAndUpdate_def split: sum.splits list.splits option.splits)

lemma deleteById_docs:
  "docs (snd (deleteById v s)) = docs s \<or>
   (\<exists>k. docs (snd (deleteById v s)) = removeFirst (\<lambda>x. item_id x = k) (docs s))"
  by (auto simp: deleteById_def findByIdAndDelete_def split: sum.splits option.splits)

lemma putById_found:
  assumes "distinct (map item_id (docs s))" and "d \<in> set (docs s)"
    and "castObjectId v = Inr (item_id d)"
  shows "putById v b now s =
     (if updateFailures b = [] \<and>
         updateConflict (ns s) b (removeFirst (\<lambda>x. item_id x = item_id d) (docs s)) = None
      then (\<lparr>status = 200, body = Item (applyUpdate b now d)\<rparr>,
            s\<lparr>docs := map (\<lambda>x. if item_id x = item_id d then applyUpdate b now d else x) (docs s)\<rparr>)
      else (\<lparr>status = 500, body = Message ''Something went wrong!''\<rparr>, s))"
proof -
  have found: "find (\<lambda>x. item_id x = item_id d) (docs s) = Some d"
    using assms(1,2) by (rule find_distinct_member)
  have repl: "replaceFirst (\<lambda>x. item_id x = item_id d) (applyUpdate b now d) (docs s) =
      map (\<lambda>x. if item_id x = item_id d then applyUpdate b now d else x) (docs s)"
    using assms(1) by (rule replaceFirst_distinct)
  show ?thesis
    using found repl assms(3)
    by (simp add: putById_def findByIdAndUpdate_def errorHandler_def
        split: list.splits option.splits)
qed

text \<open>
  Two invariants of the collection under the three writing handlers: identifiers stay
  unique, and every stored record keeps passing the code's validators. The theorems about
  stored records below assume the first of the collection they start from.
\<close>

lemma postItem_distinct:
  "distinct (map item_id (docs s)) \<Longrightarrow> distinct (map item_id (docs (snd (postItem oid now b s))))"
  using postItem_docs [of oid now b s]
  by (auto simp: insertOne_def split: if_splits)

lemma putById_distinct:
  "distinct (map item_id (docs s)) \<Longrightarrow> distinct (map item_id (docs (snd (putById v b now s))))"
  using putById_docs [of v b now s]
  by (auto simp: map_replaceFirst_same item_id_applyUpdate dest!: find_Some_member)

lemma deleteById_distinct:
  "distinct (map item_id (docs s)) \<Longrightarrow> distinct (map item_id (docs (snd (deleteById v s))))"
  using deleteById_docs [of v s] by (auto simp: map_removeFirst_distinct)

lemma postItem_passesValidators:
  "list_all passesValidators (docs s) \<Longrightarrow>
     list_all passesValidators (docs (snd (postItem oid now b s)))"
  using postItem_docs [of oid now b s] by (auto dest: newDocument_fields)

lemma putById_passesValidators:
  assumes "list_all passesValidators (docs s)"
  shows "list_all passesValidators (docs (snd (putById v b now s)))"
proof -
  from putById_docs [of v b now s] show ?thesis
  proof
    assume "docs (snd (putById v b now s)) = docs s"
    with assms show ?thesis by simp
  next
    assume "\<exists>k d. castObjectId v = Inr k \<and> updateFailures b = [] \<and>
          find (\<lambda>x. item_id x = k) (docs s) = Some d \<and>
          docs (snd (putById v b now s)) =
            replaceFirst (\<lambda>x. item_id x = k) (applyUpdate b now d) (docs s)"
    then obtain k d where ok: "updateFailures b = []"
      and found: "find (\<lambda>x. item_id x = k) (docs s) = Some d"
      and new: "docs (snd (putById v b now s)) =
            replaceFirst (\<lambda>x. item_id x = k) (applyUpdate b now d) (docs s)"
      by blast
    from found have "d \<in> set (docs s)" by (simp add: find_Some_member)
    with assms have "passesValidators d" by (simp add: list_all_iff)
    with ok have "passesValidators (applyUpdate b now d)"
      by (simp add: passesValidators_applyUpdate)
    with assms new set_replaceFirst_subset [of "\<lambda>x. item_id x = k" "applyUpdate b now d" "docs s"]
    show ?thesis by (auto simp: list_all_iff)
  qed
qed

lemma deleteById_passesValidators:
  "list_all passesValidators (docs s) \<Longrightarrow> list_all passesValidators (docs (snd (deleteById v s)))"
  using deleteById_docs [of v s] set_removeFirst_subset
  by (fastforce simp: list_all_iff)

lemma acmeStore_facts:
  "distinct (map item_id (docs acmeStore))" "acmeItem \<in> set (docs acmeStore)"
  "castObjectId acmeId = Inr (item_id acmeItem)" "passesValidators acmeItem"
  using castObjectId_acmeId
  by (simp_all add: acmeStore_def acmeItem_def passesValidators_iff)

text \<open>
  The end-to-end scenario of the specification on the model: create, list, update the
  rank, delete, read.
\<close>

lemma end_to_end_scenario:
  "postItem acmeId 1000 acmeBody emptyStore = (\<lparr>status = 201, body = Item acmeItem\<rparr>, acmeStore)"
  "getAll acmeStore = \<lparr>status = 200, body = Items [acmeItem]\<rparr>"
  "putById acmeId (noFields\<lparr>b_rank := Some 2\<rparr>) 2000 acmeStore =
     (\<lparr>status = 200, body = Item (acmeItem\<lparr>rank := 2, updatedAt := 2000\<rparr>)\<rparr>,
      acmeStore\<lparr>docs := [acmeItem\<lparr>rank := 2, updatedAt := 2000\<rparr>]\<rparr>)"
  "deleteById acmeId (acmeStore\<lparr>docs := [acmeItem\<lparr>rank := 2, updatedAt := 2000\<rparr>]\<rparr>) =
     (\<lparr>status = 200, body = Message ''Rank item deleted successfully''\<rparr>, emptyStore)"
  "getById acmeId emptyStore = \<lparr>status = 404, body = Message ''Rank item not found''\<rparr>"
  using castObjectId_acmeId
  by (simp_all add: postItem_def falsy_def save_def newDocument_def requiredFailures_def
      checkRequiredString_def omittedFailure_def suppliedTextFailure_def suppliedArrayFailure_def checkRequiredArray_def arrayDefault_def
      acmeBody_def emptyStore_def acmeStore_def acmeItem_def noFields_def insertOne_def
      getAll_def findSorted_def putById_def findByIdAndUpdate_def updateFailures_def
      suppliedTextFailure_def suppliedArrayFailure_def updateConflict_def applyUpdate_def
      deleteById_def findByIdAndDelete_def getById_def findById_def)

subsection \<open>Create\<close>

text \<open>
  C7. A create request whose body lacks \<open>siteName\<close> is answered 400 and leaves the store
  as it was: no record is created, and the list and its length are the same before and
  after the request.
\<close>

theorem create_without_siteName:
  "b_siteName b = None \<Longrightarrow>
     status (fst (postItem oid now b s)) = 400 \<and>
     snd (postItem oid now b s) = s \<and>
     getAll (snd (postItem oid now b s)) = getAll s \<and>
     length (docs (snd (postItem oid now b s))) = length (docs s)"
  by (simp add: postItem_def falsy_def)

theorem create_without_siteName_witness:
  "b_siteName noFields = None \<and>
   status (fst (postItem acmeId 1000 noFields acmeStore)) = 400 \<and>
   snd (postItem acmeId 1000 noFields acmeStore) = acmeStore"
proof -
  have h: "b_siteName noFields = None"
    by (simp add: noFields_def)
  show ?thesis
    using h create_without_siteName [OF h, of acmeId 1000 acmeStore] by simp
qed





text \<open>
  C8, at a failing input. The claim is that a record accepted by a write has at least one
  element in \<open>advantages\<close> and in \<open>payments\<close>, a payload with an empty array being rejected
  with a validation error. The handlers accept such payloads: a create with both arrays
  empty, or with both omitted, is answered 201 and stores the record with empty arrays,
  and an update that empties \<open>advantages\<close> is answered 200 and stores it.
\<close>

theorem empty_arrays_accepted:
  "postItem acmeId 1000 (acmeBody\<lparr>b_advantages := Some [], b_payments := Some []\<rparr>) emptyStore =
     (\<lparr>status = 201, body = Item (acmeItem\<lparr>advantages := [], payments := []\<rparr>)\<rparr>,
      emptyStore\<lparr>docs := [acmeItem\<lparr>advantages := [], payments := []\<rparr>]\<rparr>) \<and>
   postItem acmeId 1000 (acmeBody\<lparr>b_advantages := None, b_payments := None\<rparr>) emptyStore =
     (\<lparr>status = 201, body = Item (acmeItem\<lparr>advantages := [], payments := []\<rparr>)\<rparr>,
      emptyStore\<lparr>docs := [acmeItem\<lparr>advantages := [], payments := []\<rparr>]\<rparr>) \<and>
   putById acmeId (noFields\<lparr>b_advantages := Some []\<rparr>) 2000 acmeStore =
     (\<lparr>status = 200, body = Item (acmeItem\<lparr>advantages := [], updatedAt := 2000\<rparr>)\<rparr>,
      acmeStore\<lparr>docs := [acmeItem\<lparr>advantages := [], updatedAt := 2000\<rparr>]\<rparr>)"
  using castObjectId_acmeId
  by (simp add: postItem_def falsy_def save_def newDocument_def requiredFailures_def
      checkRequiredString_def omittedFailure_def suppliedTextFailure_def suppliedArrayFailure_def checkRequiredArray_def arrayDefault_def
      acmeBody_def emptyStore_def acmeStore_def acmeItem_def noFields_def
      insertOne_def putById_def findByIdAndUpdate_def updateFailures_def
      suppliedTextFailure_def suppliedArrayFailure_def updateConflict_def applyUpdate_def)

subsection \<open>List\<close>

text \<open>
  C3. For every collection, whatever the order its records were inserted in, the list
  operation is answered 200 with all stored records (the same records, each as often as
  it is stored) in non-decreasing order of \<open>rank\<close>.
\<close>

theorem list_sorted_by_rank:
  "\<exists>xs. getAll s = \<lparr>status = 200, body = Items xs\<rparr> \<and>
        sorted (map rank xs) \<and> mset xs = mset (docs s)"
  by (simp add: getAll_def findSorted_def)

subsection \<open>Update\<close>

text \<open>
  C4. For every stored record and every body, an update-by-id answered 200 returns and
  stores a record in which each attribute the body supplies has the supplied value and
  each attribute it omits has its prior value; the identifier and \<open>createdAt\<close> are kept,
  \<open>updatedAt\<close>, which the system manages, is the time of the update, and every other
  record of the collection is left as it was. A read-by-id afterwards returns that record.
\<close>

theorem update_changes_supplied_fields_only:
  assumes "distinct (map item_id (docs s))" and "d \<in> set (docs s)"
    and "castObjectId v = Inr (item_id d)"
    and "status (fst (putById v b now s)) = 200"
  shows "\<exists>d'. fst (putById v b now s) = \<lparr>status = 200, body = Item d'\<rparr> \<and>
      docs (snd (putById v b now s)) =
        map (\<lambda>x. if item_id x = item_id d then d' else x) (docs s) \<and>
      getById v (snd (putById v b now s)) = \<lparr>status = 200, body = Item d'\<rparr> \<and>
      item_id d' = item_id d \<and> createdAt d' = createdAt d \<and> updatedAt d' = now \<and>
      siteName d' = (case b_siteName b of None \<Rightarrow> siteName d | Some x \<Rightarrow> x) \<and>
      logo d' = (case b_logo b of None \<Rightarrow> logo d | Some x \<Rightarrow> x) \<and>
      advantages d' = (case b_advantages b of None \<Rightarrow> advantages d | Some x \<Rightarrow> x) \<and>
      welcomeBonus d' = (case b_welcomeBonus b of None \<Rightarrow> welcomeBonus d | Some x \<Rightarrow> x) \<and>
      payments d' = (case b_payments b of None \<Rightarrow> payments d | Some x \<Rightarrow> x) \<and>
      promoCode d' = (case b_promoCode b of None \<Rightarrow> promoCode d | Some x \<Rightarrow> x) \<and>
      rank d' = (case b_rank b of None \<Rightarrow> rank d | Some x \<Rightarrow> x) \<and>
      createAccountUrl d' =
        (case b_createAccountUrl b of None \<Rightarrow> createAccountUrl d | Some x \<Rightarrow> Some x) \<and>
      downloadAppUrl d' =
        (case b_downloadAppUrl b of None \<Rightarrow> downloadAppUrl d | Some x \<Rightarrow> Some x)"
proof -
  let ?m = "applyUpdate b now d"
  let ?s' = "s\<lparr>docs := map (\<lambda>x. if item_id x = item_id d then ?m else x) (docs s)\<rparr>"
  from assms(4) putById_found [OF assms(1-3), of b now]
  have put: "putById v b now s = (\<lparr>status = 200, body = Item ?m\<rparr>, ?s')"
    by (simp split: if_splits)
  have found: "find (\<lambda>x. item_id x = item_id d) (docs s) = Some d"
    using assms(1,2) by (rule find_distinct_member)
  have "find (\<lambda>x. item_id x = item_id d)
          (replaceFirst (\<lambda>x. item_id x = item_id d) ?m (docs s)) = Some ?m"
    using found by (rule find_replaceFirst) (simp add: item_id_applyUpdate)
  then have "find (\<lambda>x. item_id x = item_id d) (docs ?s') = Some ?m"
    using replaceFirst_distinct [OF assms(1), of "item_id d" ?m] by simp
  then have get: "getById v ?s' = \<lparr>status = 200, body = Item ?m\<rparr>"
    using assms(3) by (simp add: getById_def findById_def)
  have fields: "item_id ?m = item_id d \<and> createdAt ?m = createdAt d \<and> updatedAt ?m = now \<and>
      siteName ?m = (case b_siteName b of None \<Rightarrow> siteName d | Some x \<Rightarrow> x) \<and>
      logo ?m = (case b_logo b of None \<Rightarrow> logo d | Some x \<Rightarrow> x) \<and>
      advantages ?m = (case b_advantages b of None \<Rightarrow> advantages d | Some x \<Rightarrow> x) \<and>
      welcomeBonus ?m = (case b_welcomeBonus b of None \<Rightarrow> welcomeBonus d | Some x \<Rightarrow> x) \<and>
      payments ?m = (case b_payments b of None \<Rightarrow> payments d | Some x \<Rightarrow> x) \<and>
      promoCode ?m = (case b_promoCode b of None \<Rightarrow> promoCode d | Some x \<Rightarrow> x) \<and>
      rank ?m = (case b_rank b of None \<Rightarrow> rank d | Some x \<Rightarrow> x) \<and>
      createAccountUrl ?m =
        (case b_createAccountUrl b of None \<Rightarrow> createAccountUrl d | Some x \<Rightarrow> Some x) \<and>
      downloadAppUrl ?m =
        (case b_downloadAppUrl b of None \<Rightarrow> downloadAppUrl d | Some x \<Rightarrow> Some x)"
    by (simp add: applyUpdate_def)
  show ?thesis
    apply (rule exI [of _ ?m])
    using put get fields by simp
qed

theorem update_changes_supplied_fields_only_witness:
  "fst (putById acmeId (noFields\<lparr>b_rank := Some 2\<rparr>) 2000 acmeStore) =
     \<lparr>status = 200, body = Item (acmeItem\<lparr>rank := 2, updatedAt := 2000\<rparr>)\<rparr>"
proof -
  let ?b = "noFields\<lparr>b_rank := Some 2\<rparr>"
  have ok: "status (fst (putById acmeId ?b 2000 acmeStore)) = 200"
    using castObjectId_acmeId
    by (simp add: putById_def findByIdAndUpdate_def updateFailures_def suppliedTextFailure_def
        suppliedArrayFailure_def noFields_def acmeStore_def acmeItem_def updateConflict_def)
  from update_changes_supplied_fields_only [OF acmeStore_facts(1-3) ok]
  obtain d' where r: "fst (putById acmeId ?b 2000 acmeStore) = \<lparr>status = 200, body = Item d'\<rparr>"
    and f: "item_id d' = item_id acmeItem" "createdAt d' = createdAt acmeItem" "updatedAt d' = 2000"
      "siteName d' = siteName acmeItem" "logo d' = logo acmeItem"
      "advantages d' = advantages acmeItem" "welcomeBonus d' = welcomeBonus acmeItem"
      "payments d' = payments acmeItem" "promoCode d' = promoCode acmeItem" "rank d' = 2"
      "createAccountUrl d' = createAccountUrl acmeItem"
      "downloadAppUrl d' = downloadAppUrl acmeItem"
    by (auto simp: noFields_def)
  have "d' = acmeItem\<lparr>rank := 2, updatedAt := 2000\<rparr>"
    using f by (intro rankItem.equality) simp_all
  with r show ?thesis by simp
qed

text \<open>
  C5 as stated fails: the claim is that the body merged onto the stored record is
  validated against the whole entity schema before it is stored, a merged record that
  violates the schema not being persisted. The validators run on the paths the body
  supplies and on no other. On a collection whose record has an empty \<open>logo\<close>, an update
  of the rank alone is answered 200 and stores the merged record, on which the
  validation of a save fails at \<open>logo\<close>. And after a create without the two arrays (answered
  201), an update of the rank alone is answered 200 and stores a merged record with both
  arrays empty.
\<close>

theorem unvalidated_merge_counterexample:
  "putById acmeId (noFields\<lparr>b_rank := Some 2\<rparr>) 2000 (acmeStore\<lparr>docs := [acmeItem\<lparr>logo := []\<rparr>]\<rparr>) =
     (\<lparr>status = 200, body = Item (acmeItem\<lparr>logo := [], rank := 2, updatedAt := 2000\<rparr>)\<rparr>,
      acmeStore\<lparr>docs := [acmeItem\<lparr>logo := [], rank := 2, updatedAt := 2000\<rparr>]\<rparr>) \<and>
   requiredFailures (toBody (acmeItem\<lparr>logo := [], rank := 2, updatedAt := 2000\<rparr>)) = [''logo''] \<and>
   \<not> spec_entitySchema (acmeItem\<lparr>logo := [], rank := 2, updatedAt := 2000\<rparr>) \<and>
   snd (postItem acmeId 1000 (acmeBody\<lparr>b_advantages := None, b_payments := None\<rparr>) emptyStore) =
     emptyStore\<lparr>docs := [acmeItem\<lparr>advantages := [], payments := []\<rparr>]\<rparr> \<and>
   putById acmeId (noFields\<lparr>b_rank := Some 2\<rparr>) 2000
       (emptyStore\<lparr>docs := [acmeItem\<lparr>advantages := [], payments := []\<rparr>]\<rparr>) =
     (\<lparr>status = 200,
       body = Item (acmeItem\<lparr>advantages := [], payments := [], rank := 2, updatedAt := 2000\<rparr>)\<rparr>,
      emptyStore\<lparr>docs :=
        [acmeItem\<lparr>advantages := [], payments := [], rank := 2, updatedAt := 2000\<rparr>]\<rparr>) \<and>
   \<not> spec_entitySchema
       (acmeItem\<lparr>advantages := [], payments := [], rank := 2, updatedAt := 2000\<rparr>)"
  using castObjectId_acmeId
  by (simp add: putById_def findByIdAndUpdate_def updateFailures_def suppliedTextFailure_def
      suppliedArrayFailure_def omittedFailure_def updateConflict_def applyUpdate_def
      noFields_def acmeStore_def emptyStore_def acmeItem_def acmeBody_def
      requiredFailures_def toBody_def checkRequiredString_def checkRequiredArray_def
      arrayDefault_def spec_entitySchema_def postItem_def falsy_def save_def newDocument_def
      insertOne_def)

text \<open>
  C5, amended. For every update-by-id on a stored record, the fields the body supplies
  are validated before anything is stored: when a supplied \<open>siteName\<close>, \<open>logo\<close>,
  \<open>welcomeBonus\<close> or \<open>promoCode\<close> is empty, or a supplied \<open>siteName\<close> or \<open>rank\<close> is that of
  another record, the answer is 500 and the collection is unchanged. When none of these
  holds and no supplied array is empty, the merged record is stored and returned with 200;
  the fields the body omits are not validated again, and the merged record satisfies the
  entity schema whenever the stored record did.
\<close>

theorem update_validates_supplied_fields:
  assumes "distinct (map item_id (docs s))" and "d \<in> set (docs s)"
    and "castObjectId v = Inr (item_id d)"
  shows "(b_siteName b = Some [] \<or> b_logo b = Some [] \<or> b_welcomeBonus b = Some [] \<or>
          b_promoCode b = Some [] \<or>
          (\<exists>x\<in>set (docs s). item_id x \<noteq> item_id d \<and>
             (b_siteName b = Some (siteName x) \<or> b_rank b = Some (rank x))) \<longrightarrow>
            putById v b now s = (\<lparr>status = 500, body = Message ''Something went wrong!''\<rparr>, s)) \<and>
         (b_siteName b \<noteq> Some [] \<and> b_logo b \<noteq> Some [] \<and> b_welcomeBonus b \<noteq> Some [] \<and>
          b_promoCode b \<noteq> Some [] \<and> b_advantages b \<noteq> Some [] \<and> b_payments b \<noteq> Some [] \<and>
          (\<forall>x\<in>set (docs s). item_id x \<noteq> item_id d \<longrightarrow>
             b_siteName b \<noteq> Some (siteName x) \<and> b_rank b \<noteq> Some (rank x)) \<longrightarrow>
            putById v b now s =
              (\<lparr>status = 200, body = Item (applyUpdate b now d)\<rparr>,
               s\<lparr>docs := map (\<lambda>x. if item_id x = item_id d then applyUpdate b now d else x)
                             (docs s)\<rparr>) \<and>
            (spec_entitySchema d \<longrightarrow> spec_entitySchema (applyUpdate b now d)))"
proof -
  let ?others = "removeFirst (\<lambda>x. item_id x = item_id d) (docs s)"
  have others: "set ?others = {x \<in> set (docs s). item_id x \<noteq> item_id d}"
    using assms(1) by (rule set_removeFirst_distinct)
  have conflict: "updateConflict (ns s) b ?others = None \<longleftrightarrow>
      (\<forall>x\<in>set (docs s). item_id x \<noteq> item_id d \<longrightarrow>
         b_siteName b \<noteq> Some (siteName x) \<and> b_rank b \<noteq> Some (rank x))"
    by (auto simp: updateConflict_None_iff others)
  have schema: "spec_entitySchema (applyUpdate b now d)"
    if "spec_entitySchema d" and "updateFailures b = []"
      and "b_advantages b \<noteq> Some []" and "b_payments b \<noteq> Some []"
    using that
    by (auto simp: spec_entitySchema_def updateFailures_Nil_iff applyUpdate_def
        split: option.splits)
  show ?thesis
    using putById_found [OF assms, of b now] conflict schema
    by (auto simp: updateFailures_Nil_iff)
qed

theorem update_validates_supplied_fields_witness:
  "putById acmeId (noFields\<lparr>b_logo := Some []\<rparr>) 2000 acmeStore =
     (\<lparr>status = 500, body = Message ''Something went wrong!''\<rparr>, acmeStore) \<and>
   putById acmeId (noFields\<lparr>b_rank := Some 2\<rparr>) 2000 acmeStore =
     (\<lparr>status = 200, body = Item (acmeItem\<lparr>rank := 2, updatedAt := 2000\<rparr>)\<rparr>,
      acmeStore\<lparr>docs := [acmeItem\<lparr>rank := 2, updatedAt := 2000\<rparr>]\<rparr>) \<and>
   spec_entitySchema (acmeItem\<lparr>rank := 2, updatedAt := 2000\<rparr>)"
proof -
  have merged: "applyUpdate (noFields\<lparr>b_rank := Some 2\<rparr>) 2000 acmeItem =
      acmeItem\<lparr>rank := 2, updatedAt := 2000\<rparr>"
    by (simp add: applyUpdate_def noFields_def)
  have schema: "spec_entitySchema acmeItem"
    by (simp add: spec_entitySchema_def acmeItem_def)
  show ?thesis
    using update_validates_supplied_fields [OF acmeStore_facts(1-3), of "noFields\<lparr>b_logo := Some []\<rparr>" 2000]
      update_validates_supplied_fields [OF acmeStore_facts(1-3), of "noFields\<lparr>b_rank := Some 2\<rparr>" 2000]
      merged schema
    by (simp add: noFields_def acmeStore_def)
qed

subsection \<open>Delete\<close>

text \<open>
  C9. For every stored record, delete-by-id on its identifier is answered 200 with the
  confirmation message and takes exactly that record out of the collection; a read-by-id
  on the same identifier afterwards is answered 404. The store keeps identifiers unique.
\<close>

theorem delete_then_read:
  assumes "distinct (map item_id (docs s))" and "d \<in> set (docs s)"
    and "castObjectId v = Inr (item_id d)"
  shows "fst (deleteById v s) =
           \<lparr>status = 200, body = Message ''Rank item deleted successfully''\<rparr> \<and>
         mset (docs (snd (deleteById v s))) = mset (docs s) - {#d#} \<and>
         getById v (snd (deleteById v s)) =
           \<lparr>status = 404, body = Message ''Rank item not found''\<rparr>"
proof -
  let ?P = "\<lambda>x. item_id x = item_id d"
  have found: "find ?P (docs s) = Some d"
    using assms(1,2) by (rule find_distinct_member)
  then have del: "deleteById v s =
      (\<lparr>status = 200, body = Message ''Rank item deleted successfully''\<rparr>,
       s\<lparr>docs := removeFirst ?P (docs s)\<rparr>)"
    using assms(3) by (simp add: deleteById_def findByIdAndDelete_def)
  have gone: "find ?P (removeFirst ?P (docs s)) = None"
    using assms(1) by (rule find_removeFirst_distinct)
  show ?thesis
    using del gone assms(3) mset_removeFirst [OF found]
    by (simp add: getById_def findById_def)
qed

theorem delete_then_read_witness:
  "fst (deleteById acmeId acmeStore) =
     \<lparr>status = 200, body = Message ''Rank item deleted successfully''\<rparr> \<and>
   getById acmeId (snd (deleteById acmeId acmeStore)) =
     \<lparr>status = 404, body = Message ''Rank item not found''\<rparr>"
proof -
  have 1: "distinct (map item_id (docs acmeStore))"
    by (simp add: acmeStore_def)
  have 2: "acmeItem \<in> set (docs acmeStore)"
    by (simp add: acmeStore_def)
  have 3: "castObjectId acmeId = Inr (item_id acmeItem)"
    using castObjectId_acmeId by (simp add: acmeItem_def)
  show ?thesis
    using delete_then_read [OF 1 2 3] by simp
qed

subsection \<open>Ids that match nothing, ids that are malformed\<close>

text \<open>
  C1 as stated fails: the claim is that read, update and delete answer 404 for an id that
  is not a well-formed identifier. For the id \<^verbatim>\<open>abc\<close> the cast raises, the handlers pass
  the error on, and the fault boundary answers 500.
\<close>

theorem malformed_id_counterexample:
  "castObjectId ''abc'' = Inl (CastError ''abc'') \<and>
   getById ''abc'' acmeStore = \<lparr>status = 500, body = Message ''Something went wrong!''\<rparr> \<and>
   fst (putById ''abc'' noFields 2000 acmeStore) =
     \<lparr>status = 500, body = Message ''Something went wrong!''\<rparr> \<and>
   fst (deleteById ''abc'' acmeStore) =
     \<lparr>status = 500, body = Message ''Something went wrong!''\<rparr>"
  by (simp add: castObjectId_def getById_def findById_def putById_def findByIdAndUpdate_def
      deleteById_def findByIdAndDelete_def errorHandler_def)

text \<open>
  C1, amended. For a well-formed id that matches no stored record, read-by-id and
  delete-by-id are answered 404 and the collection is unchanged; update-by-id is answered
  404 when the supplied fields pass the update validators, and 500 when they do not. For
  an id that is not well-formed all three are answered 500 by the fault boundary, and the
  collection is unchanged.
\<close>

theorem missing_or_malformed_id:
  "(castObjectId v = Inr k \<and> k \<notin> set (map item_id (docs s)) \<longrightarrow>
      getById v s = \<lparr>status = 404, body = Message ''Rank item not found''\<rparr> \<and>
      deleteById v s = (\<lparr>status = 404, body = Message ''Rank item not found''\<rparr>, s) \<and>
      putById v b now s =
        (if updateFailures b = [] then \<lparr>status = 404, body = Message ''Rank item not found''\<rparr>
         else \<lparr>status = 500, body = Message ''Something went wrong!''\<rparr>, s)) \<and>
   (isl (castObjectId v) \<longrightarrow>
      getById v s = \<lparr>status = 500, body = Message ''Something went wrong!''\<rparr> \<and>
      deleteById v s = (\<lparr>status = 500, body = Message ''Something went wrong!''\<rparr>, s) \<and>
      putById v b now s = (\<lparr>status = 500, body = Message ''Something went wrong!''\<rparr>, s))"
  by (auto simp: getById_def findById_def deleteById_def findByIdAndDelete_def putById_def
      findByIdAndUpdate_def errorHandler_def find_absent isl_def split: list.splits)

theorem missing_or_malformed_id_witness:
  "getById otherId acmeStore = \<lparr>status = 404, body = Message ''Rank item not found''\<rparr> \<and>
   deleteById otherId acmeStore =
     (\<lparr>status = 404, body = Message ''Rank item not found''\<rparr>, acmeStore) \<and>
   putById otherId noFields 2000 acmeStore =
     (\<lparr>status = 404, body = Message ''Rank item not found''\<rparr>, acmeStore) \<and>
   getById ''abc'' acmeStore = \<lparr>status = 500, body = Message ''Something went wrong!''\<rparr>"
proof -
  have fresh: "otherId \<notin> set (map item_id (docs acmeStore))"
    by (simp add: acmeStore_def acmeItem_def acmeId_def otherId_def)
  have ok: "updateFailures noFields = []"
    by (simp add: updateFailures_def noFields_def suppliedTextFailure_def suppliedArrayFailure_def)
  have bad: "castObjectId ''abc'' = Inl (CastError ''abc'')"
    by (simp add: castObjectId_def)
  show ?thesis
    using missing_or_malformed_id [of otherId otherId acmeStore noFields 2000]
      missing_or_malformed_id [of "''abc''" otherId acmeStore noFields 2000]
      castObjectId_otherId fresh ok bad
    by simp
qed

subsection \<open>Error bodies\<close>

text \<open>
  C6 as stated fails: the claim is that no error response carries internal error text,
  uniqueness violations and store failures on create included. A create whose document
  fails validation is answered 500 with the validation error's own text, and a create
  with a \<open>siteName\<close> already stored is answered 500 with the server's duplicate-key text.
\<close>

theorem create_error_text_counterexample:
  "postItem acmeId 1000 (acmeBody\<lparr>b_logo := None\<rparr>) emptyStore =
     (\<lparr>status = 500,
       body = Message (''RankItem validation failed: logo: Path '' @ [CHR 0x60] @ ''logo'' @
                       [CHR 0x60] @ '' is required.'')\<rparr>, emptyStore) \<and>
   postItem otherId 2000 acmeBody acmeStore =
     (\<lparr>status = 500,
       body = Message (''E11000 duplicate key error collection: test.rankitems index: '' @
                       ''siteName_1 dup key: { siteName: '' @ [CHR 0x22] @ ''Acme Bet'' @
                       [CHR 0x22] @ '' }'')\<rparr>, acmeStore)"
  by (simp add: postItem_def falsy_def save_def newDocument_def requiredFailures_def
      checkRequiredString_def omittedFailure_def suppliedTextFailure_def suppliedArrayFailure_def checkRequiredArray_def arrayDefault_def
      acmeBody_def emptyStore_def acmeStore_def acmeItem_def acmeId_def otherId_def
      insertOne_def joinWith_def requiredText_def quoted_def)

text \<open>
  C6, amended. The responses of list, read, update and delete are a success or one of two
  fixed bodies: 404 with \<^verbatim>\<open>Rank item not found\<close>, or the fault boundary's 500 with
  \<^verbatim>\<open>Something went wrong!\<close>. A create is answered 201, or 400 with a fixed message, or
  500 with the message text of the error that the save raised.
\<close>

theorem error_bodies:
  "(\<exists>xs. getAll s = \<lparr>status = 200, body = Items xs\<rparr>) \<and>
   (getById v s = \<lparr>status = 500, body = Message ''Something went wrong!''\<rparr> \<or>
    getById v s = \<lparr>status = 404, body = Message ''Rank item not found''\<rparr> \<or>
    (\<exists>d. getById v s = \<lparr>status = 200, body = Item d\<rparr>)) \<and>
   (fst (putById v b now s) = \<lparr>status = 500, body = Message ''Something went wrong!''\<rparr> \<or>
    fst (putById v b now s) = \<lparr>status = 404, body = Message ''Rank item not found''\<rparr> \<or>
    (\<exists>d. fst (putById v b now s) = \<lparr>status = 200, body = Item d\<rparr>)) \<and>
   (fst (deleteById v s) = \<lparr>status = 500, body = Message ''Something went wrong!''\<rparr> \<or>
    fst (deleteById v s) = \<lparr>status = 404, body = Message ''Rank item not found''\<rparr> \<or>
    fst (deleteById v s) = \<lparr>status = 200, body = Message ''Rank item deleted successfully''\<rparr>) \<and>
   (fst (postItem oid now b s) = \<lparr>status = 400, body = Message ''Le nom du site est requis''\<rparr> \<or>
    (\<exists>e. save oid now b s = Inl e \<and>
         fst (postItem oid now b s) = \<lparr>status = 500, body = Message (message e)\<rparr>) \<or>
    (\<exists>d. fst (postItem oid now b s) = \<lparr>status = 201, body = Item d\<rparr>))"
proof -
  have 1: "\<exists>xs. getAll s = \<lparr>status = 200, body = Items xs\<rparr>"
    by (simp add: getAll_def findSorted_def)
  have 2: "getById v s = \<lparr>status = 500, body = Message ''Something went wrong!''\<rparr> \<or>
    getById v s = \<lparr>status = 404, body = Message ''Rank item not found''\<rparr> \<or>
    (\<exists>d. getById v s = \<lparr>status = 200, body = Item d\<rparr>)"
    by (simp add: getById_def errorHandler_def split: sum.splits option.splits)
  have 3: "fst (putById v b now s) = \<lparr>status = 500, body = Message ''Something went wrong!''\<rparr> \<or>
    fst (putById v b now s) = \<lparr>status = 404, body = Message ''Rank item not found''\<rparr> \<or>
    (\<exists>d. fst (putById v b now s) = \<lparr>status = 200, body = Item d\<rparr>)"
    by (simp add: putById_def errorHandler_def split: sum.splits option.splits prod.splits)
  have 4: "fst (deleteById v s) = \<lparr>status = 500, body = Message ''Something went wrong!''\<rparr> \<or>
    fst (deleteById v s) = \<lparr>status = 404, body = Message ''Rank item not found''\<rparr> \<or>
    fst (deleteById v s) = \<lparr>status = 200, body = Message ''Rank item deleted successfully''\<rparr>"
    by (simp add: deleteById_def errorHandler_def split: sum.splits option.splits prod.splits)
  have 5: "fst (postItem oid now b s) = \<lparr>status = 400, body = Message ''Le nom du site est requis''\<rparr> \<or>
    (\<exists>e. save oid now b s = Inl e \<and>
         fst (postItem oid now b s) = \<lparr>status = 500, body = Message (message e)\<rparr>) \<or>
    (\<exists>d. fst (postItem oid now b s) = \<lparr>status = 201, body = Item d\<rparr>)"
    by (simp add: postItem_def message_nonempty split: sum.splits prod.splits)
  from 1 2 3 4 5 show ?thesis by blast
qed

end
